theory Spec2Isabelle
  imports Main "HOL-Library.AList"
begin

section \<open>Google Drive helper functions (gdrive/drive\_helpers.py)\<close>

text \<open>
  A shallow embedding of \<^verbatim>\<open>src/gdrive/drive_helpers.py\<close>. The module consists of three
  pure helpers (\<^verbatim>\<open>check_public_link_permission\<close>, \<^verbatim>\<open>get_drive_image_url\<close>,
  \<^verbatim>\<open>build_drive_list_params\<close>) and one operation, \<^verbatim>\<open>find_or_create_folder\<close>, that talks
  to an external Drive service through a list call and a create call.
\<close>

subsection \<open>Python values\<close>

text \<open>
  The values that travel through the module are JSON-like: the dictionaries the Drive
  API returns, and the keyword arguments the module builds. A Python \<^verbatim>\<open>str\<close> is modelled
  by \<^typ>\<open>string\<close> (its UTF-8 bytes; the only characters the module inspects are the ASCII
  single quote and backslash, whose bytes occur in no multi-byte sequence). A Python
  \<^verbatim>\<open>dict\<close> with string keys is an association list in insertion order, read with
  \<^const>\<open>map_of\<close> and written with \<^const>\<open>AList.update\<close>, which overwrites an existing key
  in place and appends a new one, as a Python dict does. Floating point values do not
  occur in what the module builds or reads and are left out.
\<close>

datatype pyval =
    PNone
  | PBool bool
  | PInt int
  | PStr string
  | PList "pyval list"
  | PDict "(string \<times> pyval) list"

type_synonym pydict = "(string \<times> pyval) list"

text \<open>
  What can be raised. The module treats an exception according to its class, and two
  classes derived from \<^verbatim>\<open>Exception\<close> are treated apart by the interpreter's machinery
  the module runs on:
  \<^item> \<open>StopIteration\<close>: an instance of \<^verbatim>\<open>StopIteration\<close> itself (instances of its proper
    subclasses are not modelled);
  \<^item> \<open>FuturesCancelledError\<close>: an instance of \<^verbatim>\<open>concurrent.futures.CancelledError\<close> itself;
  \<^item> \<open>OtherException n\<close>: an instance of any other class \<open>n\<close> derived from
    \<^verbatim>\<open>Exception\<close> (an API failure, a \<^verbatim>\<open>KeyError\<close>, a \<^verbatim>\<open>TypeError\<close>);
  \<^item> \<open>BaseExceptionOnly n\<close>: an instance of a class derived from \<^verbatim>\<open>BaseException\<close> but not
    from \<^verbatim>\<open>Exception\<close> (\<^verbatim>\<open>KeyboardInterrupt\<close>, \<^verbatim>\<open>SystemExit\<close>, \<^verbatim>\<open>asyncio.CancelledError\<close>),
    which an \<^verbatim>\<open>except Exception\<close> clause does not catch.

  The module also converts the exception it catches to a string, for its log message. An
  exception therefore carries what \<^verbatim>\<open>str(e)\<close> does: \<open>str_raises e = None\<close> when the
  conversion returns a string, \<open>Some e'\<close> when it raises \<open>e'\<close> (a \<^verbatim>\<open>__str__\<close> that fails).
\<close>

datatype exn_class =
    StopIteration
  | FuturesCancelledError
  | OtherException string
  | BaseExceptionOnly string

datatype exn = Exn (exn_class: exn_class) (str_raises: "exn option")

text \<open>\<^verbatim>\<open>isinstance(e, Exception)\<close>, the test of the \<^verbatim>\<open>except Exception\<close> clause.\<close>

fun is_Exception_class :: "exn_class \<Rightarrow> bool" where
  "is_Exception_class StopIteration = True"
| "is_Exception_class FuturesCancelledError = True"
| "is_Exception_class (OtherException n) = True"
| "is_Exception_class (BaseExceptionOnly n) = False"

definition is_Exception :: "exn \<Rightarrow> bool" where
  "is_Exception e = is_Exception_class (exn_class e)"

text \<open>
  The exceptions the interpreter raises by itself (\<^verbatim>\<open>AttributeError\<close>, \<^verbatim>\<open>KeyError\<close>,
  \<^verbatim>\<open>IndexError\<close>, \<^verbatim>\<open>TypeError\<close>, \<^verbatim>\<open>RuntimeError\<close>) are built-in classes whose string
  conversion returns.
\<close>

definition builtin_error :: "string \<Rightarrow> exn" where
  "builtin_error n = Exn (OtherException n) None"

text \<open>Truth value testing, as \<^verbatim>\<open>if x:\<close> does it.\<close>

fun py_truthy :: "pyval \<Rightarrow> bool" where
  "py_truthy PNone = False"
| "py_truthy (PBool b) = b"
| "py_truthy (PInt i) = (i \<noteq> 0)"
| "py_truthy (PStr s) = (s \<noteq> [])"
| "py_truthy (PList xs) = (xs \<noteq> [])"
| "py_truthy (PDict d) = (d \<noteq> [])"

text \<open>\<^verbatim>\<open>d.get(k)\<close> on a dictionary: the value, or \<^verbatim>\<open>None\<close> when the key is missing.\<close>

definition dict_get :: "pydict \<Rightarrow> string \<Rightarrow> pyval" where
  "dict_get d k = (case map_of d k of None \<Rightarrow> PNone | Some v \<Rightarrow> v)"

text \<open>
  \<^verbatim>\<open>x.get(k, default)\<close> on an arbitrary value: only a dictionary has the method, every
  other value of the model raises \<^verbatim>\<open>AttributeError\<close>.
\<close>

fun py_get :: "pyval \<Rightarrow> string \<Rightarrow> pyval \<Rightarrow> exn + pyval" where
  "py_get (PDict d) k dflt = Inr (case map_of d k of None \<Rightarrow> dflt | Some v \<Rightarrow> v)"
| "py_get x k dflt = Inl (builtin_error ''AttributeError'')"

text \<open>
  \<^verbatim>\<open>x[0]\<close>: the first element of a non-empty list, the first character of a non-empty
  string, \<^verbatim>\<open>IndexError\<close> when they are empty; a dictionary of the model has string keys
  only, so the key \<^verbatim>\<open>0\<close> is missing; the other values are not subscriptable.
\<close>

fun py_index0 :: "pyval \<Rightarrow> exn + pyval" where
  "py_index0 (PList []) = Inl (builtin_error ''IndexError'')"
| "py_index0 (PList (x # xs)) = Inr x"
| "py_index0 (PStr []) = Inl (builtin_error ''IndexError'')"
| "py_index0 (PStr (c # cs)) = Inr (PStr [c])"
| "py_index0 (PDict d) = Inl (builtin_error ''KeyError'')"
| "py_index0 x = Inl (builtin_error ''TypeError'')"

text \<open>
  \<^verbatim>\<open>x['id']\<close>, a subscript with a string key: a dictionary gives the value or raises
  \<^verbatim>\<open>KeyError\<close>; lists and strings want integer indices and the rest is not
  subscriptable, all \<^verbatim>\<open>TypeError\<close>.
\<close>

fun py_getitem :: "pyval \<Rightarrow> string \<Rightarrow> exn + pyval" where
  "py_getitem (PDict d) k =
     (case map_of d k of None \<Rightarrow> Inl (builtin_error ''KeyError'') | Some v \<Rightarrow> Inr v)"
| "py_getitem x k = Inl (builtin_error ''TypeError'')"

text \<open>
  \<^verbatim>\<open>s.replace(old, new)\<close>: every non-overlapping occurrence of \<open>old\<close>, found from the
  left, is replaced by \<open>new\<close>; with an empty \<open>old\<close>, \<open>new\<close> is inserted before every
  character and at the end.
\<close>

function str_replace :: "string \<Rightarrow> string \<Rightarrow> string \<Rightarrow> string" where
  "str_replace s old new =
     (if old = [] then new @ concat (map (\<lambda>c. c # new) s)
      else if s = [] then []
      else if take (length old) s = old
        then new @ str_replace (drop (length old) s) old new
      else hd s # str_replace (tl s) old new)"
  by pat_completeness auto
termination
  by (relation "measure (\<lambda>(s, old, new). length s)") auto

declare str_replace.simps [simp del]

text \<open>An optional string argument tested with \<^verbatim>\<open>if drive_id:\<close>: set and not empty.\<close>

fun opt_truthy :: "string option \<Rightarrow> bool" where
  "opt_truthy None = False"
| "opt_truthy (Some s) = (s \<noteq> [])"

abbreviation sq :: char where
  "sq \<equiv> CHR 0x27"

abbreviation bs :: char where
  "bs \<equiv> CHR 0x5C"

subsection \<open>The pure helpers\<close>

text \<open>
  \<^verbatim>\<open>any(p.get('type') == 'anyone' and p.get('role') in ['reader', 'writer', 'commenter']
      for p in permissions)\<close>
\<close>

definition check_public_link_permission :: "pydict list \<Rightarrow> bool" where
  "check_public_link_permission permissions =
     list_ex (\<lambda>p. dict_get p ''type'' = PStr ''anyone'' \<and>
                   List.member [PStr ''reader'', PStr ''writer'', PStr ''commenter'']
                     (dict_get p ''role''))
       permissions"

text \<open>\<^verbatim>\<open>f"https://drive.google.com/uc?export=view&id={file_id}"\<close>\<close>

definition get_drive_image_url :: "string \<Rightarrow> string" where
  "get_drive_image_url file_id = concat [''https://drive.google.com/uc?export=view&id='', file_id]"

text \<open>
  \<^verbatim>\<open>build_drive_list_params\<close>: the dictionary literal, then the two nested tests on
  \<^verbatim>\<open>drive_id\<close> and \<^verbatim>\<open>corpora\<close>.
\<close>

definition build_drive_list_params ::
  "string \<Rightarrow> int \<Rightarrow> string option \<Rightarrow> bool \<Rightarrow> string option \<Rightarrow> pydict" where
  "build_drive_list_params query page_size drive_id include_items_from_all_drives corpora =
     (let list_params =
            [(''q'', PStr query),
             (''pageSize'', PInt page_size),
             (''fields'', PStr
                ''nextPageToken, files(id, name, mimeType, webViewLink, iconLink, modifiedTime, size)''),
             (''supportsAllDrives'', PBool True),
             (''includeItemsFromAllDrives'', PBool include_items_from_all_drives)]
      in if opt_truthy drive_id then
           (let list_params = AList.update ''driveId'' (PStr (the drive_id)) list_params
            in if opt_truthy corpora
               then AList.update ''corpora'' (PStr (the corpora)) list_params
               else AList.update ''corpora'' (PStr ''drive'') list_params)
         else if opt_truthy corpora
           then AList.update ''corpora'' (PStr (the corpora)) list_params
         else list_params)"

subsection \<open>The Drive service\<close>

text \<open>
  \<^verbatim>\<open>drive_service\<close> is the external collaborator. The module builds and runs two
  requests on it:
  \<^verbatim>\<open>drive_service.files().list(**search_params).execute()\<close> and
  \<^verbatim>\<open>drive_service.files().create(body=..., fields=..., supportsAllDrives=...).execute()\<close>.
  Each is one operation of the model: it receives the keyword arguments as a dictionary
  and the state of the service (the remote drive, the network, quotas), and gives what
  the request did, with the state that follows. The type of the state is a parameter:
  the module never looks at it.

  A request runs in two places. The expression \<^verbatim>\<open>drive_service.files().list(...)\<close> that
  builds it is evaluated by the coroutine itself, inside the \<^verbatim>\<open>try\<close> block; its
  \<^verbatim>\<open>execute\<close> method is handed to \<^verbatim>\<open>asyncio.to_thread\<close> and runs on a worker thread. So a
  request either raises while it is built, or raises in \<^verbatim>\<open>execute\<close>, or \<^verbatim>\<open>execute\<close>
  returns a response. A request that blocks for ever is not modelled: every request is
  taken to finish.
\<close>

datatype request_result =
    BuildRaises exn
  | ExecuteRaises exn
  | ExecuteReturns pyval

record 's drive_service =
  files_list :: "pydict \<Rightarrow> 's \<Rightarrow> request_result \<times> 's"
  files_create :: "pydict \<Rightarrow> 's \<Rightarrow> request_result \<times> 's"

text \<open>How a piece of the coroutine ends: with a value, with an exception, or not at all.\<close>

datatype completion =
    Returns pyval
  | Raises exn
  | NeverCompletes

text \<open>
  \<^verbatim>\<open>await asyncio.to_thread(f)\<close>, for an \<open>f\<close> that returned or raised on the worker
  thread (CPython 3.11). The thread pool stores whatever \<open>f\<close> raised, a
  \<^verbatim>\<open>BaseException\<close> too, in its future, and \<^verbatim>\<open>asyncio\<close> copies it to the future the
  coroutine awaits:
  \<^item> an instance of \<^verbatim>\<open>concurrent.futures.CancelledError\<close> is replaced by an
    \<^verbatim>\<open>asyncio.CancelledError\<close> with the same arguments, which derives from
    \<^verbatim>\<open>BaseException\<close> only;
  \<^item> an instance of \<^verbatim>\<open>StopIteration\<close> is refused by the awaited future (\<^verbatim>\<open>set_exception\<close>
    raises \<^verbatim>\<open>TypeError\<close> in the event loop's callback), the future is never completed
    and the coroutine waits for ever;
  \<^item> every other exception is raised at the \<^verbatim>\<open>await\<close> as it is (the two other classes
    \<^verbatim>\<open>asyncio\<close> replaces, \<^verbatim>\<open>TimeoutError\<close> and \<^verbatim>\<open>InvalidStateError\<close>, stay instances of
    \<^verbatim>\<open>Exception\<close> with the same arguments).
\<close>

fun to_thread :: "exn + pyval \<Rightarrow> completion" where
  "to_thread (Inr v) = Returns v"
| "to_thread (Inl (Exn StopIteration str)) = NeverCompletes"
| "to_thread (Inl (Exn FuturesCancelledError str)) =
     Raises (Exn (BaseExceptionOnly ''asyncio.CancelledError'') str)"
| "to_thread (Inl (Exn (OtherException n) str)) = Raises (Exn (OtherException n) str)"
| "to_thread (Inl (Exn (BaseExceptionOnly n) str)) = Raises (Exn (BaseExceptionOnly n) str)"

text \<open>
  \<^verbatim>\<open>await asyncio.to_thread(drive_service.files().list(**search_params).execute)\<close>: an
  exception of the building expression is raised where it stands; \<^verbatim>\<open>execute\<close> goes
  through the worker thread.
\<close>

fun await_request :: "request_result \<Rightarrow> completion" where
  "await_request (BuildRaises e) = Raises e"
| "await_request (ExecuteRaises e) = to_thread (Inl e)"
| "await_request (ExecuteReturns v) = to_thread (Inr v)"

text \<open>A statement of the coroutine that returns or raises at once.\<close>

fun direct :: "exn + pyval \<Rightarrow> completion" where
  "direct (Inl e) = Raises e"
| "direct (Inr v) = Returns v"

text \<open>The requests an invocation issued, in order, each with its keyword arguments.\<close>

datatype call = ListCall pydict | CreateCall pydict

fun is_list_call :: "call \<Rightarrow> bool" where
  "is_list_call (ListCall kw) = True"
| "is_list_call (CreateCall kw) = False"

fun is_create_call :: "call \<Rightarrow> bool" where
  "is_create_call (ListCall kw) = False"
| "is_create_call (CreateCall kw) = True"

definition num_list_calls :: "call list \<Rightarrow> nat" where
  "num_list_calls cs = length (filter is_list_call cs)"

definition num_create_calls :: "call list \<Rightarrow> nat" where
  "num_create_calls cs = length (filter is_create_call cs)"

subsection \<open>find\_or\_create\_folder\<close>

text \<open>
  \<^verbatim>\<open>escaped_name = folder_name.replace("'", "\\'")\<close> and the f-string
  \<^verbatim>\<open>f"name = '{escaped_name}' and mimeType = 'application/vnd.google-apps.folder' and trashed = false"\<close>
\<close>

definition escaped_name :: "string \<Rightarrow> string" where
  "escaped_name folder_name = str_replace folder_name [sq] [bs, sq]"

definition folder_query :: "string \<Rightarrow> string" where
  "folder_query folder_name =
     concat [''name = '', [sq], escaped_name folder_name, [sq],
             '' and mimeType = '', [sq], ''application/vnd.google-apps.folder'', [sq],
             '' and trashed = false'']"

text \<open>The \<^verbatim>\<open>search_params\<close> dictionary, with the two entries added under \<^verbatim>\<open>if drive_id:\<close>.\<close>

definition search_params :: "string \<Rightarrow> string option \<Rightarrow> bool \<Rightarrow> pydict" where
  "search_params folder_name drive_id include_items_from_all_drives =
     (let search_params =
            [(''q'', PStr (folder_query folder_name)),
             (''pageSize'', PInt 10),
             (''fields'', PStr ''files(id, name, parents)''),
             (''supportsAllDrives'', PBool True),
             (''includeItemsFromAllDrives'', PBool include_items_from_all_drives)]
      in if opt_truthy drive_id
         then AList.update ''driveId'' (PStr (the drive_id))
                (AList.update ''corpora'' (PStr ''drive'') search_params)
         else search_params)"

text \<open>\<^verbatim>\<open>parent_folder\<close>: \<^verbatim>\<open>'root'\<close>, overwritten by the drive id under \<^verbatim>\<open>if drive_id:\<close>.\<close>

definition parent_folder :: "string option \<Rightarrow> string" where
  "parent_folder drive_id = (if opt_truthy drive_id then the drive_id else ''root'')"

definition folder_metadata :: "string \<Rightarrow> string option \<Rightarrow> pydict" where
  "folder_metadata folder_name drive_id =
     [(''name'', PStr folder_name),
      (''mimeType'', PStr ''application/vnd.google-apps.folder''),
      (''parents'', PList [PStr (parent_folder drive_id)])]"

text \<open>The keyword arguments of the create request.\<close>

definition create_kwargs :: "string \<Rightarrow> string option \<Rightarrow> pydict" where
  "create_kwargs folder_name drive_id =
     [(''body'', PDict (folder_metadata folder_name drive_id)),
      (''fields'', PStr ''id, name''),
      (''supportsAllDrives'', PBool True)]"

text \<open>
  The result of running code against the service: how it ended, the requests it issued,
  and the state the service is left in.
\<close>

record 's run =
  outcome :: completion
  calls :: "call list"
  service_state :: 's

text \<open>
  The body of the \<^verbatim>\<open>try\<close> block, statement by statement. Every statement that can raise
  is a \<open>case\<close> whose \<open>Raises\<close> branch leaves the block with the exception, and an
  \<^verbatim>\<open>await\<close> that never completes ends the block there. The \<^verbatim>\<open>logger.info\<close> calls format
  strings and values read from a response, which cannot fail, and are left out.
\<close>

definition try_block ::
  "'s drive_service \<Rightarrow> string \<Rightarrow> string option \<Rightarrow> bool \<Rightarrow> 's \<Rightarrow> 's run" where
  "try_block drive_service folder_name drive_id include_items_from_all_drives s =
     (let sp = search_params folder_name drive_id include_items_from_all_drives;
          (q1, s1) = files_list drive_service sp s
      in case await_request q1 of
           NeverCompletes \<Rightarrow>
             \<lparr>outcome = NeverCompletes, calls = [ListCall sp], service_state = s1\<rparr>
         | Raises e \<Rightarrow> \<lparr>outcome = Raises e, calls = [ListCall sp], service_state = s1\<rparr>
         | Returns results \<Rightarrow>
             (case py_get results ''files'' (PList []) of
                Inl e \<Rightarrow> \<lparr>outcome = Raises e, calls = [ListCall sp], service_state = s1\<rparr>
              | Inr folders \<Rightarrow>
                  if py_truthy folders then
                    (case py_index0 folders of
                       Inl e \<Rightarrow>
                         \<lparr>outcome = Raises e, calls = [ListCall sp], service_state = s1\<rparr>
                     | Inr first \<Rightarrow>
                         \<lparr>outcome = direct (py_getitem first ''id''), calls = [ListCall sp],
                          service_state = s1\<rparr>)
                  else
                    (let kw = create_kwargs folder_name drive_id;
                         (q2, s2) = files_create drive_service kw s1
                     in case await_request q2 of
                          NeverCompletes \<Rightarrow>
                            \<lparr>outcome = NeverCompletes, calls = [ListCall sp, CreateCall kw],
                             service_state = s2\<rparr>
                        | Raises e \<Rightarrow>
                            \<lparr>outcome = Raises e, calls = [ListCall sp, CreateCall kw],
                             service_state = s2\<rparr>
                        | Returns created_folder \<Rightarrow>
                            \<lparr>outcome = direct (py_get created_folder ''id'' PNone),
                             calls = [ListCall sp, CreateCall kw],
                             service_state = s2\<rparr>)))"

text \<open>
  The handler, \<^verbatim>\<open>logger.error(f"... '{folder_name}': {e}")\<close> and then \<^verbatim>\<open>return None\<close>.
  The f-string converts \<open>e\<close> to a string first: when that raises, the new exception
  leaves the handler and the \<^verbatim>\<open>return\<close> is not reached. The logging call itself is taken
  to return.
\<close>

definition except_handler :: "exn \<Rightarrow> completion" where
  "except_handler e = (case str_raises e of None \<Rightarrow> Returns PNone | Some e' \<Rightarrow> Raises e')"

text \<open>
  \<^verbatim>\<open>try: ... except Exception as e: ...\<close>: an exception of the block that is an instance
  of \<^verbatim>\<open>Exception\<close> runs the handler; anything else ends the statement as it ended the
  block.
\<close>

definition try_except :: "completion \<Rightarrow> completion" where
  "try_except c =
     (case c of
        Raises e \<Rightarrow> if is_Exception e then except_handler e else Raises e
      | _ \<Rightarrow> c)"

text \<open>
  Leaving the coroutine: a \<^verbatim>\<open>StopIteration\<close> that would leave the body of a coroutine is
  replaced by a \<^verbatim>\<open>RuntimeError\<close> (PEP 479).
\<close>

definition leave_coroutine :: "completion \<Rightarrow> completion" where
  "leave_coroutine c =
     (case c of
        Raises e \<Rightarrow>
          if exn_class e = StopIteration then Raises (builtin_error ''RuntimeError'')
          else Raises e
      | _ \<Rightarrow> c)"

definition find_or_create_folder ::
  "'s drive_service \<Rightarrow> string \<Rightarrow> string option \<Rightarrow> bool \<Rightarrow> 's \<Rightarrow> 's run" where
  "find_or_create_folder drive_service folder_name drive_id include_items_from_all_drives s =
     (let r = try_block drive_service folder_name drive_id include_items_from_all_drives s
      in r\<lparr>outcome := leave_coroutine (try_except (outcome r))\<rparr>)"

subsection \<open>Services to run the module against\<close>

text \<open>
  A small in-memory drive: its state is the list of folder records it holds. The list
  request answers with every record (it does not interpret the query); the create
  request stores the metadata it is given under a fresh id made of the letter \<open>f\<close>
  repeated once more than there are folders.
\<close>

definition mem_list :: "pydict \<Rightarrow> pydict list \<Rightarrow> request_result \<times> pydict list" where
  "mem_list kw s = (ExecuteReturns (PDict [(''files'', PList (map PDict s))]), s)"

definition http_error :: exn where
  "http_error = Exn (OtherException ''HttpError'') None"

definition mem_create :: "pydict \<Rightarrow> pydict list \<Rightarrow> request_result \<times> pydict list" where
  "mem_create kw s =
     (case map_of kw ''body'' of
        Some (PDict md) \<Rightarrow>
          (let r = [(''id'', PStr (replicate (Suc (length s)) CHR ''f'')),
                    (''name'', dict_get md ''name'')]
           in (ExecuteReturns (PDict r), s @ [(''parents'', dict_get md ''parents'') # r]))
      | _ \<Rightarrow> (ExecuteRaises http_error, s))"

definition mem_drive :: "(pydict list) drive_service" where
  "mem_drive = \<lparr>files_list = mem_list, files_create = mem_create\<rparr>"





section \<open>Properties\<close>

subsection \<open>The model's building blocks\<close>

text \<open>Replacing a one-character pattern rewrites the string character by character.\<close>

lemma str_replace_char:
  "str_replace s [c] new = concat (map (\<lambda>x. if x = c then new else [x]) s)"
proof (induction s)
  case Nil
  show ?case by (simp add: str_replace.simps)
next
  case (Cons x xs)
  show ?case
  proof (cases "x = c")
    case True
    have "str_replace (x # xs) [c] new = new @ str_replace xs [c] new"
      using True by (subst str_replace.simps) simp
    then show ?thesis using True Cons.IH by simp
  next
    case False
    have "str_replace (x # xs) [c] new = x # str_replace xs [c] new"
      using False by (subst str_replace.simps) simp
    then show ?thesis using False Cons.IH by simp
  qed
qed

text \<open>
  The \<^verbatim>\<open>except\<close> clause and the exit of the coroutine change the outcome only: the
  requests issued and the state of the service are those of the \<^verbatim>\<open>try\<close> block.
\<close>

lemma calls_find_or_create_folder:
  "calls (find_or_create_folder svc fn did inc s) = calls (try_block svc fn did inc s)"
  by (simp add: find_or_create_folder_def Let_def)

lemma service_state_find_or_create_folder:
  "service_state (find_or_create_folder svc fn did inc s) =
   service_state (try_block svc fn did inc s)"
  by (simp add: find_or_create_folder_def Let_def)

lemma outcome_find_or_create_folder:
  "outcome (find_or_create_folder svc fn did inc s) =
   leave_coroutine (try_except (outcome (try_block svc fn did inc s)))"
  by (simp add: find_or_create_folder_def Let_def)

text \<open>What the \<^verbatim>\<open>except\<close> clause and the exit of the coroutine do to each way of ending.\<close>

lemma returns_passes:
  "leave_coroutine (try_except (Returns v)) = Returns v"
  by (simp add: leave_coroutine_def try_except_def)

lemma never_completes_passes:
  "leave_coroutine (try_except NeverCompletes) = NeverCompletes"
  by (simp add: leave_coroutine_def try_except_def)

lemma exception_is_caught:
  assumes "is_Exception e" and "str_raises e = None"
  shows "leave_coroutine (try_except (Raises e)) = Returns PNone"
  using assms by (simp add: leave_coroutine_def try_except_def except_handler_def)

lemma base_exception_passes:
  assumes "exn_class e = BaseExceptionOnly n"
  shows "leave_coroutine (try_except (Raises e)) = Raises e"
  using assms by (simp add: leave_coroutine_def try_except_def is_Exception_def)

lemma direct_is_caught:
  "leave_coroutine (try_except (direct (py_getitem x k))) =
     (case py_getitem x k of Inl e \<Rightarrow> Returns PNone | Inr v \<Rightarrow> Returns v)"
  by (cases x)
     (simp_all add: returns_passes exception_is_caught is_Exception_def builtin_error_def
        split: option.splits)

text \<open>
  Which exceptions of a request are raised at the \<^verbatim>\<open>await\<close> as they are: those of the
  building expression, and those of \<^verbatim>\<open>execute\<close> other than \<^verbatim>\<open>StopIteration\<close> and
  \<^verbatim>\<open>concurrent.futures.CancelledError\<close>.
\<close>

lemma await_request_raises:
  assumes "q = BuildRaises e \<or>
           (q = ExecuteRaises e \<and> exn_class e \<noteq> StopIteration \<and>
            exn_class e \<noteq> FuturesCancelledError)"
  shows "await_request q = Raises e"
proof (cases e)
  case (Exn c str)
  with assms show ?thesis by (cases c) auto
qed


text \<open>The paths through the \<^verbatim>\<open>try\<close> block.\<close>

lemma try_block_list_fails:
  assumes "files_list svc (search_params fn did inc) s = (q, s1)"
      and "\<forall>v. await_request q \<noteq> Returns v"
  shows "try_block svc fn did inc s =
           \<lparr>outcome = await_request q, calls = [ListCall (search_params fn did inc)],
            service_state = s1\<rparr>"
  using assms by (simp add: try_block_def Let_def split: completion.splits)

lemma try_block_calls:
  "calls (try_block svc fn did inc s) = [ListCall (search_params fn did inc)] \<or>
   calls (try_block svc fn did inc s) =
     [ListCall (search_params fn did inc), CreateCall (create_kwargs fn did)]"
  by (simp add: try_block_def Let_def split: prod.splits sum.splits completion.splits)

lemma try_block_found:
  assumes "files_list svc (search_params fn did inc) s = (ExecuteReturns (PDict results), s1)"
      and "map_of results ''files'' = Some (PList (first # others))"
  shows "try_block svc fn did inc s =
           \<lparr>outcome = direct (py_getitem first ''id''),
            calls = [ListCall (search_params fn did inc)], service_state = s1\<rparr>"
  using assms by (simp add: try_block_def Let_def)

lemma try_block_missing:
  assumes "files_list svc (search_params fn did inc) s = (ExecuteReturns (PDict results), s1)"
      and "map_of results ''files'' = None \<or> map_of results ''files'' = Some (PList [])"
      and "files_create svc (create_kwargs fn did) s1 = (q2, s2)"
  shows "try_block svc fn did inc s =
           \<lparr>outcome = (case await_request q2 of
                         Returns c \<Rightarrow> direct (py_get c ''id'' PNone)
                       | Raises e \<Rightarrow> Raises e
                       | NeverCompletes \<Rightarrow> NeverCompletes),
            calls = [ListCall (search_params fn did inc), CreateCall (create_kwargs fn did)],
            service_state = s2\<rparr>"
  using assms by (auto simp add: try_block_def Let_def split: completion.splits)


lemma find_or_create_folder_calls:
  "calls (find_or_create_folder svc fn did inc s) = [ListCall (search_params fn did inc)] \<or>
   calls (find_or_create_folder svc fn did inc s) =
     [ListCall (search_params fn did inc), CreateCall (create_kwargs fn did)]"
  using try_block_calls [of svc fn did inc s] by (simp add: calls_find_or_create_folder)

lemma create_call_kwargs:
  "CreateCall kw \<in> set (calls (find_or_create_folder svc fn did inc s)) \<Longrightarrow>
   kw = create_kwargs fn did"
  using find_or_create_folder_calls [of svc fn did inc s] by auto

text \<open>
  An exception that is not derived from \<^verbatim>\<open>Exception\<close> passes through the
  \<^verbatim>\<open>except Exception\<close> clause, wherever the list request raised it.
\<close>

lemma base_exception_propagates:
  assumes l: "files_list svc (search_params fn did inc) s = (q, s1)"
      and q: "q = BuildRaises e \<or> q = ExecuteRaises e"
      and c: "exn_class e = BaseExceptionOnly n"
  shows "outcome (find_or_create_folder svc fn did inc s) = Raises e"
proof -
  have a: "await_request q = Raises e"
    using q c by (intro await_request_raises) auto
  then have "\<forall>v. await_request q \<noteq> Returns v"
    by simp
  from try_block_list_fails [OF l this] a c show ?thesis
    by (simp add: outcome_find_or_create_folder base_exception_passes)
qed

text \<open>Runs of the operation against the services defined above.\<close>

lemma run_mem_drive_empty:
  "find_or_create_folder mem_drive fn did inc [] =
     \<lparr>outcome = Returns (PStr ''f''),
      calls = [ListCall (search_params fn did inc), CreateCall (create_kwargs fn did)],
      service_state =
        [[(''parents'', PList [PStr (parent_folder did)]), (''id'', PStr ''f''),
          (''name'', PStr fn)]]\<rparr>"
  by (simp add: find_or_create_folder_def try_block_def mem_drive_def mem_list_def
        mem_create_def create_kwargs_def folder_metadata_def dict_get_def Let_def
        returns_passes)

lemma run_mem_drive_found:
  "find_or_create_folder mem_drive fn did inc ([(''id'', i), (''name'', PStr fn)] # others) =
     \<lparr>outcome = Returns i,
      calls = [ListCall (search_params fn did inc)],
      service_state = [(''id'', i), (''name'', PStr fn)] # others\<rparr>"
  by (simp add: find_or_create_folder_def try_block_def mem_drive_def mem_list_def Let_def
        returns_passes)



subsection \<open>Finding or creating a folder\<close>

text \<open>
  Claim C1. Whenever the list request answers with an empty result set (a response with
  no \<^verbatim>\<open>files\<close> entry, or with the empty list there), \<^verbatim>\<open>find_or_create_folder\<close> issues
  exactly one list request followed by exactly one create request, and when the create
  request answers with a response, the function returns \<^verbatim>\<open>created_folder.get('id')\<close>, the id
  of that response.
\<close>

theorem find_or_create_folder_creates_when_missing:
  fixes svc :: "'s drive_service" and folder_name drive_id incl s
  defines "r \<equiv> find_or_create_folder svc folder_name drive_id incl s"
  assumes listed: "files_list svc (search_params folder_name drive_id incl) s =
                     (ExecuteReturns (PDict results), s1)"
      and empty: "map_of results ''files'' = None \<or> map_of results ''files'' = Some (PList [])"
  shows "calls r = [ListCall (search_params folder_name drive_id incl),
                    CreateCall (create_kwargs folder_name drive_id)] \<and>
         num_list_calls (calls r) = 1 \<and>
         num_create_calls (calls r) = 1 \<and>
         (\<forall>created s2.
            files_create svc (create_kwargs folder_name drive_id) s1 =
              (ExecuteReturns (PDict created), s2)
            \<longrightarrow> outcome r = Returns (dict_get created ''id''))"
proof -
  obtain r2 s2 where cr: "files_create svc (create_kwargs folder_name drive_id) s1 = (r2, s2)"
    by (cases "files_create svc (create_kwargs folder_name drive_id) s1")
  note tb = try_block_missing [OF listed empty cr]
  have c: "calls r = [ListCall (search_params folder_name drive_id incl),
                      CreateCall (create_kwargs folder_name drive_id)]"
    by (simp add: r_def calls_find_or_create_folder tb)
  have o: "outcome r = Returns (dict_get created ''id'')"
    if "files_create svc (create_kwargs folder_name drive_id) s1 =
          (ExecuteReturns (PDict created), s2')"
    for created s2'
    using that cr
    by (simp add: r_def outcome_find_or_create_folder tb dict_get_def returns_passes)
  show ?thesis
    using c o by (simp add: num_list_calls_def num_create_calls_def)
qed

theorem find_or_create_folder_creates_when_missing_witness:
  "files_list mem_drive (search_params ''Reports'' None True) [] =
     (ExecuteReturns (PDict [(''files'', PList [])]), []) \<and>
   map_of [(''files'', PList [])] ''files'' = Some (PList []) \<and>
   files_create mem_drive (create_kwargs ''Reports'' None) [] =
     (ExecuteReturns (PDict [(''id'', PStr ''f''), (''name'', PStr ''Reports'')]),
      [[(''parents'', PList [PStr ''root'']), (''id'', PStr ''f''),
        (''name'', PStr ''Reports'')]]) \<and>
   calls (find_or_create_folder mem_drive ''Reports'' None True []) =
     [ListCall (search_params ''Reports'' None True),
      CreateCall (create_kwargs ''Reports'' None)] \<and>
   num_list_calls (calls (find_or_create_folder mem_drive ''Reports'' None True [])) = 1 \<and>
   num_create_calls (calls (find_or_create_folder mem_drive ''Reports'' None True [])) = 1 \<and>
   outcome (find_or_create_folder mem_drive ''Reports'' None True []) = Returns (PStr ''f'')"
proof -
  have l: "files_list mem_drive (search_params ''Reports'' None True) [] =
             (ExecuteReturns (PDict [(''files'', PList [])]), [])"
    by (simp add: mem_drive_def mem_list_def)
  have e: "map_of [(''files'', PList [])] ''files'' = None \<or>
           map_of [(''files'', PList [])] ''files'' = Some (PList [])"
    by simp
  have c: "files_create mem_drive (create_kwargs ''Reports'' None) [] =
             (ExecuteReturns (PDict [(''id'', PStr ''f''), (''name'', PStr ''Reports'')]),
              [[(''parents'', PList [PStr ''root'']), (''id'', PStr ''f''),
                (''name'', PStr ''Reports'')]])"
    by (simp add: mem_drive_def mem_create_def create_kwargs_def folder_metadata_def
          parent_folder_def dict_get_def Let_def)
  from find_or_create_folder_creates_when_missing [OF l e] c l show ?thesis
    by (simp add: dict_get_def num_list_calls_def num_create_calls_def)
qed

text \<open>
  Claim C2. Whenever the list request answers with a non-empty result set,
  \<^verbatim>\<open>find_or_create_folder\<close> issues exactly one list request and no create request, and
  returns the id of the first record listed (a folder record is a dictionary with an
  \<^verbatim>\<open>id\<close> entry).
\<close>

theorem find_or_create_folder_returns_first_match:
  fixes svc :: "'s drive_service" and folder_name drive_id incl s
  defines "r \<equiv> find_or_create_folder svc folder_name drive_id incl s"
  assumes listed: "files_list svc (search_params folder_name drive_id incl) s =
                     (ExecuteReturns (PDict results), s1)"
      and nonempty: "map_of results ''files'' = Some (PList (first # others))"
  shows "calls r = [ListCall (search_params folder_name drive_id incl)] \<and>
         num_list_calls (calls r) = 1 \<and>
         num_create_calls (calls r) = 0 \<and>
         (\<forall>entry folder_id.
            first = PDict entry \<and> map_of entry ''id'' = Some folder_id
            \<longrightarrow> outcome r = Returns folder_id)"
proof -
  note tb = try_block_found [OF listed nonempty]
  have c: "calls r = [ListCall (search_params folder_name drive_id incl)]"
    by (simp add: r_def calls_find_or_create_folder tb)
  have o: "outcome r = Returns folder_id"
    if "first = PDict entry" and "map_of entry ''id'' = Some folder_id"
    for entry folder_id
    using that by (simp add: r_def outcome_find_or_create_folder tb returns_passes)
  show ?thesis
    using c o by (simp add: num_list_calls_def num_create_calls_def)
qed

theorem find_or_create_folder_returns_first_match_witness:
  "files_list mem_drive (search_params ''Reports'' None True)
       [[(''id'', PStr ''abc123''), (''name'', PStr ''Reports'')],
        [(''id'', PStr ''zzz999''), (''name'', PStr ''Reports'')]] =
     (ExecuteReturns (PDict [(''files'',
        PList [PDict [(''id'', PStr ''abc123''), (''name'', PStr ''Reports'')],
               PDict [(''id'', PStr ''zzz999''), (''name'', PStr ''Reports'')]])]),
      [[(''id'', PStr ''abc123''), (''name'', PStr ''Reports'')],
       [(''id'', PStr ''zzz999''), (''name'', PStr ''Reports'')]]) \<and>
   calls (find_or_create_folder mem_drive ''Reports'' None True
       [[(''id'', PStr ''abc123''), (''name'', PStr ''Reports'')],
        [(''id'', PStr ''zzz999''), (''name'', PStr ''Reports'')]]) =
     [ListCall (search_params ''Reports'' None True)] \<and>
   num_create_calls (calls (find_or_create_folder mem_drive ''Reports'' None True
       [[(''id'', PStr ''abc123''), (''name'', PStr ''Reports'')],
        [(''id'', PStr ''zzz999''), (''name'', PStr ''Reports'')]])) = 0 \<and>
   outcome (find_or_create_folder mem_drive ''Reports'' None True
       [[(''id'', PStr ''abc123''), (''name'', PStr ''Reports'')],
        [(''id'', PStr ''zzz999''), (''name'', PStr ''Reports'')]]) = Returns (PStr ''abc123'')"
proof -
  let ?a = "[(''id'', PStr ''abc123''), (''name'', PStr ''Reports'')]"
  let ?b = "[(''id'', PStr ''zzz999''), (''name'', PStr ''Reports'')]"
  have l: "files_list mem_drive (search_params ''Reports'' None True) [?a, ?b] =
             (ExecuteReturns (PDict [(''files'', PList [PDict ?a, PDict ?b])]), [?a, ?b])"
    by (simp add: mem_drive_def mem_list_def)
  have n: "map_of [(''files'', PList [PDict ?a, PDict ?b])] ''files'' =
             Some (PList (PDict ?a # [PDict ?b]))"
    by simp
  from find_or_create_folder_returns_first_match [OF l n] l show ?thesis
    by (simp add: num_create_calls_def)
qed




text \<open>
  Claim C4. With a shared-drive id provided (a non-empty string, which is what
  \<^verbatim>\<open>if drive_id:\<close> accepts), the parameters of the list request carry \<^verbatim>\<open>driveId\<close> equal to
  that id and \<^verbatim>\<open>corpora\<close> equal to \<^verbatim>\<open>'drive'\<close>, and every create request the function
  issues has a body whose \<^verbatim>\<open>parents\<close> is the one-element list of that id and has
  \<^verbatim>\<open>supportsAllDrives\<close> set. With no shared-drive id (\<^verbatim>\<open>None\<close>, or the empty string), the
  body's \<^verbatim>\<open>parents\<close> is exactly \<^verbatim>\<open>['root']\<close>.
\<close>

theorem find_or_create_folder_drive_scope:
  fixes svc :: "'s drive_service" and folder_name drive_id incl s
  defines "r \<equiv> find_or_create_folder svc folder_name drive_id incl s"
      and "sp \<equiv> search_params folder_name drive_id incl"
  shows "(\<forall>d. drive_id = Some d \<and> d \<noteq> [] \<longrightarrow>
            (\<exists>rest. calls r = ListCall sp # rest) \<and>
            map_of sp ''driveId'' = Some (PStr d) \<and>
            map_of sp ''corpora'' = Some (PStr ''drive'') \<and>
            (\<forall>kw. CreateCall kw \<in> set (calls r) \<longrightarrow>
               (\<exists>md. map_of kw ''body'' = Some (PDict md) \<and>
                     map_of md ''parents'' = Some (PList [PStr d])) \<and>
               map_of kw ''supportsAllDrives'' = Some (PBool True))) \<and>
         (drive_id = None \<or> drive_id = Some [] \<longrightarrow>
            (\<forall>kw. CreateCall kw \<in> set (calls r) \<longrightarrow>
               (\<exists>md. map_of kw ''body'' = Some (PDict md) \<and>
                     map_of md ''parents'' = Some (PList [PStr ''root'']))))"
proof (intro conjI allI impI)
  fix d
  assume d: "drive_id = Some d \<and> d \<noteq> []"
  show "\<exists>rest. calls r = ListCall sp # rest"
    using find_or_create_folder_calls [of svc folder_name drive_id incl s]
    by (auto simp: r_def sp_def)
  show "map_of sp ''driveId'' = Some (PStr d)"
    using d by (simp add: sp_def search_params_def Let_def)
  show "map_of sp ''corpora'' = Some (PStr ''drive'')"
    using d by (simp add: sp_def search_params_def Let_def)
next
  fix d kw
  assume d: "drive_id = Some d \<and> d \<noteq> []" and "CreateCall kw \<in> set (calls r)"
  then have kw: "kw = create_kwargs folder_name drive_id"
    unfolding r_def by (rule_tac create_call_kwargs) simp
  show "\<exists>md. map_of kw ''body'' = Some (PDict md) \<and>
             map_of md ''parents'' = Some (PList [PStr d])"
    using d by (simp add: kw create_kwargs_def folder_metadata_def parent_folder_def)
  show "map_of kw ''supportsAllDrives'' = Some (PBool True)"
    by (simp add: kw create_kwargs_def)
next
  fix kw
  assume d: "drive_id = None \<or> drive_id = Some []" and "CreateCall kw \<in> set (calls r)"
  then have kw: "kw = create_kwargs folder_name drive_id"
    unfolding r_def by (rule_tac create_call_kwargs) simp
  show "\<exists>md. map_of kw ''body'' = Some (PDict md) \<and>
             map_of md ''parents'' = Some (PList [PStr ''root''])"
    using d by (auto simp add: kw create_kwargs_def folder_metadata_def parent_folder_def)
qed

theorem find_or_create_folder_drive_scope_witness:
  "map_of (search_params ''Reports'' (Some ''0ADrive'') True) ''driveId'' =
     Some (PStr ''0ADrive'') \<and>
   map_of (search_params ''Reports'' (Some ''0ADrive'') True) ''corpora'' =
     Some (PStr ''drive'') \<and>
   CreateCall (create_kwargs ''Reports'' (Some ''0ADrive''))
     \<in> set (calls (find_or_create_folder mem_drive ''Reports'' (Some ''0ADrive'') True [])) \<and>
   (\<exists>md. map_of (create_kwargs ''Reports'' (Some ''0ADrive'')) ''body'' = Some (PDict md) \<and>
         map_of md ''parents'' = Some (PList [PStr ''0ADrive''])) \<and>
   map_of (create_kwargs ''Reports'' (Some ''0ADrive'')) ''supportsAllDrives'' =
     Some (PBool True) \<and>
   CreateCall (create_kwargs ''Reports'' None)
     \<in> set (calls (find_or_create_folder mem_drive ''Reports'' None True [])) \<and>
   (\<exists>md. map_of (create_kwargs ''Reports'' None) ''body'' = Some (PDict md) \<and>
         map_of md ''parents'' = Some (PList [PStr ''root'']))"
proof -
  have d: "Some ''0ADrive'' = Some ''0ADrive'' \<and> ''0ADrive'' \<noteq> []"
    by simp
  have i: "CreateCall (create_kwargs ''Reports'' (Some ''0ADrive''))
             \<in> set (calls (find_or_create_folder mem_drive ''Reports'' (Some ''0ADrive'') True []))"
    by (simp add: run_mem_drive_empty)
  have n: "(None :: string option) = None \<or> None = Some []"
    by simp
  have j: "CreateCall (create_kwargs ''Reports'' None)
             \<in> set (calls (find_or_create_folder mem_drive ''Reports'' None True []))"
    by (simp add: run_mem_drive_empty)
  note t1 = find_or_create_folder_drive_scope
              [of "Some ''0ADrive''" mem_drive "''Reports''" True "[]", THEN conjunct1,
               rule_format, OF d]
  note t2 = find_or_create_folder_drive_scope
              [of None mem_drive "''Reports''" True "[]", THEN conjunct2, rule_format, OF n j]
  from t1 [THEN conjunct2, THEN conjunct2, THEN conjunct2, rule_format, OF i]
       t1 [THEN conjunct2, THEN conjunct1] t1 [THEN conjunct2, THEN conjunct2, THEN conjunct1]
       t2 i j
  show ?thesis
    by blast
qed

text \<open>
  Claim C5. The query string is the fixed text around the folder name in which every
  single quote has become backslash, single quote, and every other character of the
  name, a backslash included, stands as it is; this string is the \<^verbatim>\<open>q\<close> parameter of the
  list request.
\<close>

theorem folder_query_escapes_single_quotes_only:
  fixes svc :: "'s drive_service" and folder_name drive_id incl s
  defines "r \<equiv> find_or_create_folder svc folder_name drive_id incl s"
      and "sp \<equiv> search_params folder_name drive_id incl"
  shows "folder_query folder_name =
           ''name = '' @ [sq] @
           concat (map (\<lambda>c. if c = sq then [bs, sq] else [c]) folder_name) @
           [sq] @ '' and mimeType = '' @ [sq] @ ''application/vnd.google-apps.folder'' @ [sq] @
           '' and trashed = false'' \<and>
         (\<exists>rest. calls r = ListCall sp # rest) \<and>
         map_of sp ''q'' = Some (PStr (folder_query folder_name))"
proof (intro conjI)
  show "folder_query folder_name =
           ''name = '' @ [sq] @
           concat (map (\<lambda>c. if c = sq then [bs, sq] else [c]) folder_name) @
           [sq] @ '' and mimeType = '' @ [sq] @ ''application/vnd.google-apps.folder'' @ [sq] @
           '' and trashed = false''"
    by (simp add: folder_query_def escaped_name_def str_replace_char)
  show "\<exists>rest. calls r = ListCall sp # rest"
    using find_or_create_folder_calls [of svc folder_name drive_id incl s]
    by (auto simp: r_def sp_def)
  show "map_of sp ''q'' = Some (PStr (folder_query folder_name))"
    by (simp add: sp_def search_params_def Let_def)
qed

theorem folder_query_escapes_single_quotes_only_witness:
  "folder_query (''Bob'' @ [sq] @ ''s '' @ [bs] @ '' 50%'') =
     ''name = '' @ [sq] @ ''Bob'' @ [bs, sq] @ ''s '' @ [bs] @ '' 50%'' @ [sq] @
     '' and mimeType = '' @ [sq] @ ''application/vnd.google-apps.folder'' @ [sq] @
     '' and trashed = false''"
  using folder_query_escapes_single_quotes_only
          [of "''Bob'' @ [sq] @ ''s '' @ [bs] @ '' 50%''" mem_drive None True "[]"]
  by simp

text \<open>
  Claim C6. Whatever the arguments and the service, the function issues exactly one
  list request, first, and its parameters have \<^verbatim>\<open>pageSize\<close> 10, the fields string
  \<^verbatim>\<open>'files(id, name, parents)'\<close>, \<^verbatim>\<open>supportsAllDrives\<close> true and
  \<^verbatim>\<open>includeItemsFromAllDrives\<close> equal to the \<^verbatim>\<open>include_items_from_all_drives\<close> argument.
\<close>

theorem find_or_create_folder_list_request:
  fixes svc :: "'s drive_service" and folder_name drive_id incl s
  defines "r \<equiv> find_or_create_folder svc folder_name drive_id incl s"
      and "sp \<equiv> search_params folder_name drive_id incl"
  shows "(\<exists>rest. calls r = ListCall sp # rest) \<and>
         num_list_calls (calls r) = 1 \<and>
         map_of sp ''pageSize'' = Some (PInt 10) \<and>
         map_of sp ''fields'' = Some (PStr ''files(id, name, parents)'') \<and>
         map_of sp ''supportsAllDrives'' = Some (PBool True) \<and>
         map_of sp ''includeItemsFromAllDrives'' = Some (PBool incl)"
proof (intro conjI)
  show "\<exists>rest. calls r = ListCall sp # rest"
    using find_or_create_folder_calls [of svc folder_name drive_id incl s]
    by (auto simp: r_def sp_def)
  show "num_list_calls (calls r) = 1"
    using find_or_create_folder_calls [of svc folder_name drive_id incl s]
    by (auto simp: r_def num_list_calls_def)
  show "map_of sp ''pageSize'' = Some (PInt 10)"
    by (simp add: sp_def search_params_def Let_def)
  show "map_of sp ''fields'' = Some (PStr ''files(id, name, parents)'')"
    by (simp add: sp_def search_params_def Let_def)
  show "map_of sp ''supportsAllDrives'' = Some (PBool True)"
    by (simp add: sp_def search_params_def Let_def)
  show "map_of sp ''includeItemsFromAllDrives'' = Some (PBool incl)"
    by (simp add: sp_def search_params_def Let_def)
qed

text \<open>
  Claim C10. The name stored on a created folder is the \<^verbatim>\<open>folder_name\<close> argument itself:
  every create request the function issues has a body whose \<^verbatim>\<open>name\<close> is the argument,
  with no escaping. The escaping of single quotes is confined to the query string.
\<close>

theorem created_folder_name_is_unescaped:
  fixes svc :: "'s drive_service" and folder_name drive_id incl s
  defines "r \<equiv> find_or_create_folder svc folder_name drive_id incl s"
  shows "\<forall>kw. CreateCall kw \<in> set (calls r) \<longrightarrow>
           (\<exists>md. map_of kw ''body'' = Some (PDict md) \<and>
                 map_of md ''name'' = Some (PStr folder_name))"
proof (intro allI impI)
  fix kw
  assume "CreateCall kw \<in> set (calls r)"
  then have kw: "kw = create_kwargs folder_name drive_id"
    unfolding r_def by (rule create_call_kwargs)
  show "\<exists>md. map_of kw ''body'' = Some (PDict md) \<and>
             map_of md ''name'' = Some (PStr folder_name)"
    by (simp add: kw create_kwargs_def folder_metadata_def)
qed

theorem created_folder_name_is_unescaped_witness:
  "CreateCall (create_kwargs (''Bob'' @ [sq] @ ''s'') None)
     \<in> set (calls (find_or_create_folder mem_drive (''Bob'' @ [sq] @ ''s'') None True [])) \<and>
   (\<exists>md. map_of (create_kwargs (''Bob'' @ [sq] @ ''s'') None) ''body'' = Some (PDict md) \<and>
         map_of md ''name'' = Some (PStr (''Bob'' @ [sq] @ ''s''))) \<and>
   escaped_name (''Bob'' @ [sq] @ ''s'') = ''Bob'' @ [bs, sq] @ ''s''"
proof -
  have i: "CreateCall (create_kwargs (''Bob'' @ [sq] @ ''s'') None)
     \<in> set (calls (find_or_create_folder mem_drive (''Bob'' @ [sq] @ ''s'') None True []))"
    by (simp add: run_mem_drive_empty)
  have e: "escaped_name (''Bob'' @ [sq] @ ''s'') = ''Bob'' @ [bs, sq] @ ''s''"
    by (simp add: escaped_name_def str_replace_char)
  from created_folder_name_is_unescaped
         [of mem_drive "''Bob'' @ [sq] @ ''s''" None True "[]", rule_format, OF i] i e
  show ?thesis
    by blast
qed

subsection \<open>The pure helpers\<close>

text \<open>
  Claim C7. \<^verbatim>\<open>check_public_link_permission\<close> is true exactly when some permission record
  has \<^verbatim>\<open>type\<close> equal to \<^verbatim>\<open>'anyone'\<close> and \<^verbatim>\<open>role\<close> one of \<^verbatim>\<open>reader\<close>, \<^verbatim>\<open>writer\<close>,
  \<^verbatim>\<open>commenter\<close>; it is false for the empty list.
\<close>

theorem check_public_link_permission_iff:
  "(check_public_link_permission permissions \<longleftrightarrow>
      (\<exists>p \<in> set permissions.
         map_of p ''type'' = Some (PStr ''anyone'') \<and>
         (\<exists>role \<in> {''reader'', ''writer'', ''commenter''}.
            map_of p ''role'' = Some (PStr role)))) \<and>
   \<not> check_public_link_permission []"
  by (auto simp: check_public_link_permission_def list_ex_iff dict_get_def
        split: option.splits)

theorem check_public_link_permission_iff_witness:
  "check_public_link_permission
     [[(''type'', PStr ''user''), (''role'', PStr ''owner'')],
      [(''type'', PStr ''anyone''), (''role'', PStr ''commenter'')]] \<and>
   \<not> check_public_link_permission
     [[(''type'', PStr ''anyone''), (''role'', PStr ''owner'')],
      [(''type'', PStr ''user''), (''role'', PStr ''reader'')],
      [(''role'', PStr ''writer'')]]"
  using check_public_link_permission_iff
          [of "[[(''type'', PStr ''user''), (''role'', PStr ''owner'')],
                [(''type'', PStr ''anyone''), (''role'', PStr ''commenter'')]]"]
        check_public_link_permission_iff
          [of "[[(''type'', PStr ''anyone''), (''role'', PStr ''owner'')],
                [(''type'', PStr ''user''), (''role'', PStr ''reader'')],
                [(''role'', PStr ''writer'')]]"]
  by simp

text \<open>
  Claim C8. \<^verbatim>\<open>get_drive_image_url\<close> returns the fixed prefix followed by the file id, and
  for the id \<^verbatim>\<open>XYZ\<close> exactly \<^verbatim>\<open>https://drive.google.com/uc?export=view&id=XYZ\<close>.
\<close>

theorem get_drive_image_url_eq:
  "get_drive_image_url file_id = ''https://drive.google.com/uc?export=view&id='' @ file_id \<and>
   get_drive_image_url ''XYZ'' = ''https://drive.google.com/uc?export=view&id=XYZ''"
  by (simp add: get_drive_image_url_def)

text \<open>
  Claim C9. The dictionary \<^verbatim>\<open>build_drive_list_params\<close> returns always has the fields
  string for general file browsing and \<^verbatim>\<open>supportsAllDrives\<close> true; with a drive id
  provided (truthy) and no corpora given (\<^verbatim>\<open>None\<close>, or the empty string), \<^verbatim>\<open>corpora\<close> is
  \<^verbatim>\<open>'drive'\<close>; with the drive id absent (\<^verbatim>\<open>None\<close>, or the empty string) there is no
  \<^verbatim>\<open>driveId\<close> key.
\<close>

theorem build_drive_list_params_entries:
  "map_of (build_drive_list_params query page_size drive_id incl corpora) ''fields'' =
     Some (PStr ''nextPageToken, files(id, name, mimeType, webViewLink, iconLink, modifiedTime, size)'') \<and>
   map_of (build_drive_list_params query page_size drive_id incl corpora) ''supportsAllDrives'' =
     Some (PBool True) \<and>
   (opt_truthy drive_id \<and> \<not> opt_truthy corpora \<longrightarrow>
      map_of (build_drive_list_params query page_size drive_id incl corpora) ''corpora'' =
        Some (PStr ''drive'')) \<and>
   (\<not> opt_truthy drive_id \<longrightarrow>
      map_of (build_drive_list_params query page_size drive_id incl corpora) ''driveId'' = None)"
  by (simp add: build_drive_list_params_def Let_def)

theorem build_drive_list_params_entries_witness:
  "opt_truthy (Some ''0ADrive'') \<and> \<not> opt_truthy None \<and>
   map_of (build_drive_list_params ''starred = true'' 25 (Some ''0ADrive'') True None)
     ''corpora'' = Some (PStr ''drive'') \<and>
   map_of (build_drive_list_params ''trashed = false'' 25 None False (Some ''user''))
     ''driveId'' = None"
proof -
  have a: "opt_truthy (Some ''0ADrive'') \<and> \<not> opt_truthy None"
    by simp
  have b: "\<not> opt_truthy None"
    by simp
  from build_drive_list_params_entries
         [of "''starred = true''" 25 "Some ''0ADrive''" True None,
          THEN conjunct2, THEN conjunct2, THEN conjunct1, rule_format, OF a]
       build_drive_list_params_entries
         [of "''trashed = false''" 25 None False "Some ''user''",
          THEN conjunct2, THEN conjunct2, THEN conjunct2, rule_format, OF b]
       a
  show ?thesis
    by simp
qed

end
